theory Spec2Isabelle
  imports Complex_Main "HOL-Library.AList"
begin

section \<open>Python values, exceptions and the outside world\<close>

text \<open>
  The module under verification is \<^verbatim>\<open>deepchem/utils/evaluate.py\<close>. Every exception the
  module can raise is a value: a computation returns \<open>Inl e\<close> where the Python raises
  \<open>e\<close>, and \<open>Inr v\<close> where it returns \<open>v\<close>. The string carried by an exception is
  its message (for \<open>NameError\<close> and \<open>KeyError\<close>: the name or key that was not found).
\<close>

datatype error =
    ValueError string
  | TypeError string
  | NameError string
  | KeyError string
  | IndexError
  | StopIteration
  | IOError string

text \<open>
  A Python float that a metric returns: a number or \<^verbatim>\<open>np.nan\<close>. Numbers are
  reals; no property below depends on rounding.
\<close>

datatype pyfloat = Num real | NaN

text \<open>A numpy vector of floats, as \<^verbatim>\<open>DataFrame[col].values\<close> gives it.\<close>

type_synonym vector = "real list"

text \<open>
  The Prediction Table (a pandas DataFrame): its columns in order, each a name and a
  vector. Column names are taken to be distinct.
\<close>

type_synonym pred_table = "(string \<times> vector) list"

text \<open>
  A cell of a row of the Performance Table: the rows the source builds are Python lists
  \<^verbatim>\<open>[task_name, auc, mcc, recall, accuracy]\<close> and \<^verbatim>\<open>[task_name, r2s, rms]\<close>.
\<close>

datatype cell = Name string | Score pyfloat

text \<open>
  The Performance Table (\<^verbatim>\<open>pd.DataFrame(columns=colnames)\<close>): the column names and
  the rows, each under its index label, in the order of insertion.
\<close>

record perf_table =
  columns :: "string list"
  rows :: "(nat \<times> cell list) list"

datatype csv = PredictionCsv pred_table | PerformanceCsv perf_table

text \<open>
  What the module does to the outside world: the tables it writes with \<^verbatim>\<open>to_csv\<close>
  (in the order of the writes), the warnings it emits with \<^verbatim>\<open>warnings.warn\<close>, and the
  messages it logs. \<open>unwritable\<close> lists the destinations on which a write fails.
\<close>

record world =
  written :: "(string \<times> csv) list"
  unwritable :: "string list"
  warnings :: "string list"
  logged :: "string list"

type_synonym 'a io = "world \<Rightarrow> (error + 'a) \<times> world"

text \<open>Sequencing: an exception in the first computation skips the second, and the world
  keeps what was done before the exception.\<close>

definition then_do :: "'a io \<Rightarrow> ('a \<Rightarrow> 'b io) \<Rightarrow> 'b io" where
  "then_do m f s = (case m s of (Inl e, s') \<Rightarrow> (Inl e, s') | (Inr v, s') \<Rightarrow> f v s')"

definition pure_step :: "error + 'a \<Rightarrow> 'a io" where
  "pure_step r s = (r, s)"

text \<open>
  Modelled from the spec: \<^verbatim>\<open>log\<close> is imported from \<^verbatim>\<open>deepchem.utils.save\<close>, which is
  not part of the sources at hand; the spec treats logging as an external collaborator.
  It is taken to record the message when \<open>verbose\<close> is set and never to raise.
\<close>

definition log :: "string \<Rightarrow> bool \<Rightarrow> unit io" where
  "log msg verbose s =
     (Inr (), if verbose then s\<lparr>logged := logged s @ [msg]\<rparr> else s)"

text \<open>\<^verbatim>\<open>df.to_csv(path)\<close> of pandas: the table is written to the destination, or the
  write fails with an \<open>IOError\<close>.\<close>

definition to_csv :: "csv \<Rightarrow> string \<Rightarrow> unit io" where
  "to_csv df path s =
     (if path \<in> set (unwritable s) then (Inl (IOError path), s)
      else (Inr (), s\<lparr>written := written s @ [(path, df)]\<rparr>))"

text \<open>\<^verbatim>\<open>warnings.warn(msg)\<close> under the default warning filter: the warning is emitted
  and execution continues.\<close>

definition warn :: "string \<Rightarrow> unit io" where
  "warn msg s = (Inr (), s\<lparr>warnings := warnings s @ [msg]\<rparr>)"

section \<open>Transform reversal (lines 44 to 49)\<close>

text \<open>
  \<^verbatim>\<open>
  def undo_transforms(y, transformers):
    """Undoes all transformations applied."""
    # Note that transformers have to be undone in reversed order
    for transformer in reversed(transformers):
      y = transform.unstranform(y)
    return y
  \<close>
  The right-hand side of the assignment in the loop body reads the name
  \<^verbatim>\<open>transform\<close>. The function's local names are \<^verbatim>\<open>y\<close>, \<^verbatim>\<open>transformers\<close> and
  \<^verbatim>\<open>transformer\<close>; the module binds no global \<^verbatim>\<open>transform\<close> and Python has no builtin
  of that name. Reading it raises \<open>NameError\<close>, before the attribute is looked up or
  anything is called.
\<close>

definition transform_unstranform :: "vector \<Rightarrow> error + vector" where
  "transform_unstranform y = Inl (NameError ''transform'')"

text \<open>The loop over the reversed sequence; the loop variable is not used by the body.\<close>

fun undo_loop :: "vector \<Rightarrow> 't list \<Rightarrow> error + vector" where
  "undo_loop y [] = Inr y"
| "undo_loop y (transformer # rest) =
     (case transform_unstranform y of
        Inl e \<Rightarrow> Inl e
      | Inr y' \<Rightarrow> undo_loop y' rest)"

definition undo_transforms :: "vector \<Rightarrow> 't list \<Rightarrow> error + vector" where
  "undo_transforms y transformers = undo_loop y (rev transformers)"

text \<open>
  Modelled from the spec: the Transform descriptor. The transformer classes are not part
  of the sources at hand; the spec gives the kinds identity, log and normalize (with a
  mean and a standard deviation), and speaks of unrecognized kinds. \<open>undo_transforms\<close>
  itself works on sequences of any element type.
\<close>

datatype transform =
    Identity
  | Log
  | Normalize real real
  | Unrecognized string

section \<open>The collaborators of the Evaluator\<close>

text \<open>
  The dataset offers \<^verbatim>\<open>get_task_names()\<close> and \<^verbatim>\<open>get_output_transforms()\<close>; the model
  offers the dictionary \<^verbatim>\<open>task_types\<close> (here in the order in which the dictionary
  iterates) and \<^verbatim>\<open>predict(dataset)\<close>, which returns the Prediction Table or raises.
\<close>

record 't dataset =
  get_task_names :: "string list"
  get_output_transforms :: "'t list"

record 't model =
  task_types :: "(string \<times> string) list"
  predict :: "'t dataset \<Rightarrow> error + pred_table"

text \<open>
  The metrics imported from scikit-learn (lines 11 to 16), an external library: each
  returns a float or raises. The classification metrics are called on integer vectors,
  the regression metrics on float vectors.
\<close>

record sklearn =
  roc_auc_score :: "int list \<Rightarrow> int list \<Rightarrow> error + pyfloat"
  matthews_corrcoef :: "int list \<Rightarrow> int list \<Rightarrow> error + pyfloat"
  recall_score :: "int list \<Rightarrow> int list \<Rightarrow> error + pyfloat"
  accuracy_score :: "int list \<Rightarrow> int list \<Rightarrow> error + pyfloat"
  r2_score :: "vector \<Rightarrow> vector \<Rightarrow> error + pyfloat"
  mean_squared_error :: "vector \<Rightarrow> vector \<Rightarrow> error + pyfloat"

text \<open>\<^verbatim>\<open>np.sqrt\<close> on a float: not-a-number stays, and a negative number gives it.\<close>

fun np_sqrt :: "pyfloat \<Rightarrow> pyfloat" where
  "np_sqrt NaN = NaN"
| "np_sqrt (Num x) = (if x < 0 then NaN else Num (sqrt x))"

section \<open>ROC-AUC with a fallback (lines 51 to 66)\<close>

text \<open>
  \<^verbatim>\<open>
  try:
    score = roc_auc_score(y, y_pred)
  except ValueError:
    warnings.warn("ROC AUC score calculation failed.")
    score = 0.5
  return score
  \<close>
  Only \<open>ValueError\<close> is caught; any other exception leaves the function.
\<close>

definition compute_roc_auc_scores :: "sklearn \<Rightarrow> int list \<Rightarrow> int list \<Rightarrow> pyfloat io" where
  "compute_roc_auc_scores sk y y_pred =
     (case roc_auc_score sk y y_pred of
        Inr score \<Rightarrow> pure_step (Inr score)
      | Inl (ValueError m) \<Rightarrow>
          then_do (warn ''ROC AUC score calculation failed.'')
            (\<lambda>_. pure_step (Inr (Num (1 / 2))))
      | Inl e \<Rightarrow> pure_step (Inl e))"

section \<open>The Evaluator (lines 68 to 130)\<close>

record 't evaluator =
  model :: "'t model"
  dataset :: "'t dataset"
  transformers :: "'t list"
  task_names :: "string list"
  task_type :: string
  output_transforms :: "'t list"
  verbose :: bool

text \<open>
  The constructor (lines 71 to 80) stores its arguments and what it reads from them.
  \<^verbatim>\<open>model.task_types.itervalues().next()\<close> is the first value of the dictionary, and
  raises \<open>StopIteration\<close> on an empty dictionary. Nothing else in the constructor can
  raise: the task type is stored as it is found.
\<close>

definition Evaluator_init ::
    "'t model \<Rightarrow> 't dataset \<Rightarrow> 't list \<Rightarrow> bool \<Rightarrow> error + 't evaluator" where
  "Evaluator_init m d ts vb =
     (case map snd (task_types m) of
        [] \<Rightarrow> Inl StopIteration
      | first_type # _ \<Rightarrow>
          Inr \<lparr>model = m, dataset = d, transformers = ts,
               task_names = get_task_names d, task_type = first_type,
               output_transforms = get_output_transforms d, verbose = vb\<rparr>)"

subsection \<open>Lines 90 to 96: the columns of the Performance Table\<close>

definition colnames_for :: "string \<Rightarrow> error + string list" where
  "colnames_for tt =
     (if tt = ''classification'' then
        Inr [''task_name'', ''roc_auc_score'', ''matthews_corrcoef'',
             ''recall_score'', ''accuracy_score'']
      else if tt = ''regression'' then
        Inr [''task_name'', ''r2_score'', ''rms_error'']
      else Inl (ValueError (''Unrecognized task type: '' @ tt)))"

definition DataFrame :: "string list \<Rightarrow> perf_table" where
  "DataFrame colnames = \<lparr>columns = colnames, rows = []\<rparr>"

subsection \<open>Lines 101 to 105: slicing the columns, reversing the transforms\<close>

text \<open>\<^verbatim>\<open>pred_y_df[name].values\<close>: a missing column raises \<open>KeyError\<close>.\<close>

definition column :: "pred_table \<Rightarrow> string \<Rightarrow> error + vector" where
  "column df name =
     (case map_of df name of None \<Rightarrow> Inl (KeyError name) | Some v \<Rightarrow> Inr v)"

text \<open>
  A call of \<^verbatim>\<open>undo_transforms\<close> by position. Both its parameters are required (line 44
  gives no default), so a call that passes the vector alone raises \<open>TypeError\<close> before
  the body runs. \<open>None\<close> stands for a second argument that the call does not pass.
\<close>

definition call_undo_transforms :: "vector \<Rightarrow> 't list option \<Rightarrow> error + vector" where
  "call_undo_transforms y arg2 =
     (case arg2 of
        None \<Rightarrow> Inl (TypeError ''undo_transforms() takes exactly 2 arguments (1 given)'')
      | Some ts \<Rightarrow> undo_transforms y ts)"

text \<open>
  Line 105 calls \<^verbatim>\<open>undo_transform\<close> (singular). The module defines no such name (its
  only definition, lines 27 to 42, is commented out), so reading it raises \<open>NameError\<close>.
\<close>

definition call_undo_transform :: "vector \<Rightarrow> error + vector" where
  "call_undo_transform y_pred = Inl (NameError ''undo_transform'')"

subsection \<open>Lines 107 to 125: masking and the metrics of one task\<close>

text \<open>\<^verbatim>\<open>w.nonzero()\<close>: the positions of the weights that differ from zero.\<close>

definition nonzero :: "vector \<Rightarrow> nat list" where
  "nonzero w = filter (\<lambda>i. w ! i \<noteq> 0) [0..<length w]"

text \<open>\<^verbatim>\<open>y[idx]\<close> with a list of positions: a position outside the vector raises
  \<open>IndexError\<close>.\<close>

definition take_at :: "'a list \<Rightarrow> nat list \<Rightarrow> error + 'a list" where
  "take_at y idx =
     (if list_all (\<lambda>i. i < length y) idx then Inr (map (nth y) idx) else Inl IndexError)"

text \<open>
  \<^verbatim>\<open>.astype(int)\<close> on a float: truncation towards zero, into a signed 64-bit integer.
  A float whose truncation lies outside the range of that type is converted by the
  processor's conversion instruction, which on x86-64 gives \<open>-2^63\<close>.
\<close>

definition astype_int :: "real \<Rightarrow> int" where
  "astype_int x =
     (let t = (if 0 \<le> x then \<lfloor>x\<rfloor> else \<lceil>x\<rceil>)
      in if - (2 ^ 63) \<le> t \<and> t < 2 ^ 63 then t else - (2 ^ 63))"

text \<open>
  \<^verbatim>\<open>performance_df.loc[i] = row\<close>: the row under label \<open>i\<close> is replaced, or added after
  the others when there is none; pandas refuses a row whose length is not the number of
  columns.
\<close>

definition loc_set :: "nat \<Rightarrow> cell list \<Rightarrow> perf_table \<Rightarrow> error + perf_table" where
  "loc_set i row df =
     (if length row = length (columns df)
      then Inr (df\<lparr>rows := AList.update i row (rows df)\<rparr>)
      else Inl (ValueError ''cannot set a row with mismatched columns''))"

text \<open>
  The classification branch (lines 108 to 116). Where the source says \<^verbatim>\<open>continue\<close> the
  table is returned as it was.
\<close>

definition classification_row ::
    "sklearn \<Rightarrow> nat \<Rightarrow> string \<Rightarrow> vector \<Rightarrow> vector \<Rightarrow> vector \<Rightarrow> perf_table \<Rightarrow> perf_table io" where
  "classification_row sk i task_name y y_pred w performance_df =
     then_do (pure_step (take_at y (nonzero w))) (\<lambda>ym.
     then_do (pure_step (take_at y_pred (nonzero w))) (\<lambda>ypm.
       let yi = map astype_int ym; ypi = map astype_int ypm in
       if length yi = 0 then pure_step (Inr performance_df)
       else
         then_do (compute_roc_auc_scores sk yi ypi) (\<lambda>auc.
         then_do (pure_step (matthews_corrcoef sk yi ypi)) (\<lambda>mcc.
         then_do (pure_step (recall_score sk yi ypi)) (\<lambda>recall.
         then_do (pure_step (accuracy_score sk yi ypi)) (\<lambda>accuracy.
           pure_step (loc_set i [Name task_name, Score auc, Score mcc,
                                 Score recall, Score accuracy] performance_df)))))))"

text \<open>
  The \<^verbatim>\<open>try\<close> block of the regression branch (lines 120 and 121) and its handler
  (lines 122 to 124): a \<open>ValueError\<close> from either metric sets both to not-a-number.
\<close>

definition regression_try :: "sklearn \<Rightarrow> vector \<Rightarrow> vector \<Rightarrow> error + pyfloat \<times> pyfloat" where
  "regression_try sk y y_pred =
     (case r2_score sk y y_pred of
        Inl e \<Rightarrow> Inl e
      | Inr r2s \<Rightarrow>
          (case mean_squared_error sk y y_pred of
             Inl e \<Rightarrow> Inl e
           | Inr mse \<Rightarrow> Inr (r2s, np_sqrt mse)))"

definition regression_scores :: "sklearn \<Rightarrow> vector \<Rightarrow> vector \<Rightarrow> error + pyfloat \<times> pyfloat" where
  "regression_scores sk y y_pred =
     (case regression_try sk y y_pred of
        Inr scores \<Rightarrow> Inr scores
      | Inl (ValueError m) \<Rightarrow> Inr (NaN, NaN)
      | Inl e \<Rightarrow> Inl e)"

text \<open>The regression branch (lines 119 to 125). The weights \<open>w\<close> are not read.\<close>

definition regression_row ::
    "sklearn \<Rightarrow> nat \<Rightarrow> string \<Rightarrow> vector \<Rightarrow> vector \<Rightarrow> vector \<Rightarrow> perf_table \<Rightarrow> perf_table io" where
  "regression_row sk i task_name y y_pred w performance_df =
     then_do (pure_step (regression_scores sk y y_pred)) (\<lambda>(r2s, rms).
       pure_step (loc_set i [Name task_name, Score r2s, Score rms] performance_df))"

text \<open>Lines 107 to 125: the dispatch on the task type. A task type that is neither
  takes no branch.\<close>

definition task_metrics ::
    "sklearn \<Rightarrow> string \<Rightarrow> nat \<Rightarrow> string \<Rightarrow> vector \<Rightarrow> vector \<Rightarrow> vector \<Rightarrow> perf_table
       \<Rightarrow> perf_table io" where
  "task_metrics sk tt i task_name y y_pred w performance_df =
     (if tt = ''classification'' then classification_row sk i task_name y y_pred w performance_df
      else if tt = ''regression'' then regression_row sk i task_name y y_pred w performance_df
      else pure_step (Inr performance_df))"

subsection \<open>Lines 100 to 125: the loop over the tasks\<close>

text \<open>
  One iteration. Line 104 calls \<^verbatim>\<open>undo_transforms(y)\<close> with the vector alone, and
  line 105 calls \<^verbatim>\<open>undo_transform(y_pred)\<close>.
\<close>

definition task_step ::
    "sklearn \<Rightarrow> 't evaluator \<Rightarrow> pred_table \<Rightarrow> nat \<Rightarrow> string \<Rightarrow> perf_table \<Rightarrow> perf_table io" where
  "task_step sk self pred_y_df i task_name performance_df =
     then_do (pure_step (column pred_y_df task_name)) (\<lambda>y.
     then_do (pure_step (column pred_y_df (task_name @ ''_pred''))) (\<lambda>y_pred.
     then_do (pure_step (column pred_y_df (task_name @ ''_weight''))) (\<lambda>w.
     then_do (pure_step (call_undo_transforms y (None :: 't list option))) (\<lambda>y.
     then_do (pure_step (call_undo_transform y_pred)) (\<lambda>y_pred.
       task_metrics sk (task_type self) i task_name y y_pred w performance_df)))))"

fun task_loop ::
    "sklearn \<Rightarrow> 't evaluator \<Rightarrow> pred_table \<Rightarrow> (nat \<times> string) list \<Rightarrow> perf_table \<Rightarrow> perf_table io" where
  "task_loop sk self pred_y_df [] performance_df = pure_step (Inr performance_df)"
| "task_loop sk self pred_y_df ((i, task_name) # rest) performance_df =
     then_do (task_step sk self pred_y_df i task_name performance_df)
       (task_loop sk self pred_y_df rest)"

subsection \<open>Lines 82 to 130: \<^verbatim>\<open>compute_model_performance\<close>\<close>

definition compute_model_performance ::
    "sklearn \<Rightarrow> 't evaluator \<Rightarrow> string \<Rightarrow> string \<Rightarrow> (pred_table \<times> perf_table) io" where
  "compute_model_performance sk self csv_out stats_file =
     then_do (pure_step (predict (model self) (dataset self))) (\<lambda>pred_y_df.
     then_do (log (''Saving predictions to '' @ csv_out) (verbose self)) (\<lambda>_.
     then_do (to_csv (PredictionCsv pred_y_df) csv_out) (\<lambda>_.
     then_do (pure_step (colnames_for (task_type self))) (\<lambda>colnames.
     then_do (task_loop sk self pred_y_df (enumerate 0 (task_names self))
                (DataFrame colnames)) (\<lambda>performance_df.
     then_do (log (''Saving model performance scores to '' @ stats_file) (verbose self)) (\<lambda>_.
     then_do (to_csv (PerformanceCsv performance_df) stats_file) (\<lambda>_.
       pure_step (Inr (pred_y_df, performance_df)))))))))"

section \<open>Concrete inputs\<close>

text \<open>
  Stand-ins for the scikit-learn metrics, used only to run the code on concrete inputs;
  the general theorems take the library as a parameter. They follow the documented
  formulas for binary labels 0 and 1 and for real-valued targets; each metric refuses
  vectors of different lengths, and the regression metrics refuse empty vectors.
\<close>

definition confusion :: "int \<Rightarrow> int \<Rightarrow> int list \<Rightarrow> int list \<Rightarrow> real" where
  "confusion t p y_true y_pred = real (length (filter (\<lambda>q. q = (t, p)) (zip y_true y_pred)))"

definition inconsistent :: error where
  "inconsistent = ValueError ''Found input variables with inconsistent numbers of samples''"

definition one_class :: error where
  "one_class = ValueError ''Only one class present in y_true. ROC AUC score is not defined in that case.''"

definition sk_roc_auc_score :: "int list \<Rightarrow> int list \<Rightarrow> error + pyfloat" where
  "sk_roc_auc_score y_true y_score =
     (let pos = map snd (filter (\<lambda>q. fst q = 1) (zip y_true y_score));
          neg = map snd (filter (\<lambda>q. fst q = 0) (zip y_true y_score))
      in if length y_true = length y_score then
           if pos = [] then Inl one_class
           else if neg = [] then Inl one_class
           else Inr (Num (sum_list (map (\<lambda>p. sum_list (map (\<lambda>n.
                    if n < p then 1 else if n = p then 1 / 2 else 0) neg)) pos)
                  / real (length pos * length neg)))
         else Inl inconsistent)"

definition sk_matthews_corrcoef :: "int list \<Rightarrow> int list \<Rightarrow> error + pyfloat" where
  "sk_matthews_corrcoef y_true y_pred =
     (let tp = confusion 1 1 y_true y_pred; tn = confusion 0 0 y_true y_pred;
          fp = confusion 0 1 y_true y_pred; fn = confusion 1 0 y_true y_pred;
          d = (tp + fp) * (tp + fn) * (tn + fp) * (tn + fn)
      in if length y_true = length y_pred then
           if d = 0 then Inr (Num 0) else Inr (Num ((tp * tn - fp * fn) / sqrt d))
         else Inl inconsistent)"

definition sk_recall_score :: "int list \<Rightarrow> int list \<Rightarrow> error + pyfloat" where
  "sk_recall_score y_true y_pred =
     (let tp = confusion 1 1 y_true y_pred; fn = confusion 1 0 y_true y_pred
      in if length y_true = length y_pred then
           if tp + fn = 0 then Inr (Num 0) else Inr (Num (tp / (tp + fn)))
         else Inl inconsistent)"

definition sk_accuracy_score :: "int list \<Rightarrow> int list \<Rightarrow> error + pyfloat" where
  "sk_accuracy_score y_true y_pred =
     (if length y_true = length y_pred then
        Inr (Num (real (length (filter (\<lambda>q. fst q = snd q) (zip y_true y_pred)))
                  / real (length y_true)))
      else Inl inconsistent)"

definition squares :: "vector \<Rightarrow> vector \<Rightarrow> real" where
  "squares a b = sum_list (map (\<lambda>q. (fst q - snd q) * (fst q - snd q)) (zip a b))"

definition no_samples :: error where
  "no_samples = ValueError ''Found array with 0 sample(s) while a minimum of 1 is required.''"

definition sk_mean_squared_error :: "vector \<Rightarrow> vector \<Rightarrow> error + pyfloat" where
  "sk_mean_squared_error y_true y_pred =
     (if length y_true = length y_pred then
        if y_true = [] then Inl no_samples
        else Inr (Num (squares y_true y_pred / real (length y_true)))
      else Inl inconsistent)"

definition sk_r2_score :: "vector \<Rightarrow> vector \<Rightarrow> error + pyfloat" where
  "sk_r2_score y_true y_pred =
     (let mean = sum_list y_true / real (length y_true);
          total = squares y_true (map (\<lambda>_. mean) y_true)
      in if length y_true = length y_pred then
           if y_true = [] then Inl no_samples
           else if total = 0 then Inr (Num (if squares y_true y_pred = 0 then 1 else 0))
           else Inr (Num (1 - squares y_true y_pred / total))
         else Inl inconsistent)"

definition scikit :: sklearn where
  "scikit = \<lparr>roc_auc_score = sk_roc_auc_score, matthews_corrcoef = sk_matthews_corrcoef,
         recall_score = sk_recall_score, accuracy_score = sk_accuracy_score,
         r2_score = sk_r2_score, mean_squared_error = sk_mean_squared_error\<rparr>"

text \<open>A world in which nothing has happened yet and every destination can be written.\<close>

definition world0 :: world where
  "world0 = \<lparr>written = [], unwritable = [], warnings = [], logged = []\<rparr>"

text \<open>A dataset with the single task \<^verbatim>\<open>t\<close>, and a model of a given task type that
  predicts a table of two examples for it.\<close>

definition table_t :: "vector \<Rightarrow> vector \<Rightarrow> vector \<Rightarrow> pred_table" where
  "table_t y y_pred w = [(''t'', y), (''t_pred'', y_pred), (''t_weight'', w)]"

definition dataset_t :: "transform dataset" where
  "dataset_t = \<lparr>get_task_names = [''t''], get_output_transforms = []\<rparr>"

definition model_t :: "string \<Rightarrow> pred_table \<Rightarrow> transform model" where
  "model_t tt table = \<lparr>task_types = [(''t'', tt)], predict = \<lambda>d. Inr table\<rparr>"

definition evaluator_t :: "string \<Rightarrow> pred_table \<Rightarrow> transform evaluator" where
  "evaluator_t tt table =
     \<lparr>model = model_t tt table, dataset = dataset_t, transformers = [],
      task_names = [''t''], task_type = tt, output_transforms = [], verbose = False\<rparr>"

section \<open>What a call produces\<close>




section \<open>Sequencing\<close>

lemma then_do_pure_Inl: "then_do (pure_step (Inl e)) f = pure_step (Inl e)"
  by (rule ext) (simp add: then_do_def pure_step_def)

lemma then_do_pure_Inr: "then_do (pure_step (Inr v)) f = f v"
  by (rule ext) (simp add: then_do_def pure_step_def)

section \<open>Properties of transform reversal\<close>

text \<open>
  C6. For every input vector \<open>v\<close>, \<open>undo_transforms(v, [])\<close> returns \<open>v\<close> unchanged: the
  empty transform sequence is an identity for transform reversal.
\<close>

theorem undo_transforms_empty: "undo_transforms v [] = Inr v"
  by (simp add: undo_transforms_def)


text \<open>
  C5. The claim: \<open>undo_transforms\<close> undoes the transforms one by one in the reverse of
  their order of application, so that two distinct normalize transforms give different
  results in the two orders. The code, on the vector \<open>[1]\<close> and the transforms
  normalize(mean 0, std 2) then normalize(mean 1, std 1), undoes nothing in either order:
  it raises \<open>NameError\<close> on the name \<^verbatim>\<open>transform\<close>, where reversal in reverse order
  gives \<open>[4]\<close> and in the original order \<open>[3]\<close>.
\<close>

theorem undo_transforms_two_normalize_raises:
  "undo_transforms [1] [Normalize 0 2, Normalize 1 1] = Inl (NameError ''transform'')
   \<and> undo_transforms [1] [Normalize 1 1, Normalize 0 2] = Inl (NameError ''transform'')"
  by (simp add: undo_transforms_def transform_unstranform_def)



section \<open>Properties of the constructor\<close>

text \<open>
  C4, the claim as stated fails: a model whose task type is \<^verbatim>\<open>ranking\<close>, neither
  \<^verbatim>\<open>classification\<close> nor \<^verbatim>\<open>regression\<close>, is accepted by the constructor.
\<close>

theorem Evaluator_init_accepts_unrecognized_task_type:
  "Evaluator_init (model_t ''ranking'' (table_t [1, 3] [1, 5] [1, 1])) dataset_t [] False =
     Inr (evaluator_t ''ranking'' (table_t [1, 3] [1, 5] [1, 1]))"
  by (simp add: Evaluator_init_def model_t_def dataset_t_def evaluator_t_def)

text \<open>
  C4, as amended. The constructor does not check the task type: for every model whose
  \<^verbatim>\<open>task_types\<close> dictionary is not empty, construction succeeds and stores the first
  task type as it is found, whether or not it is \<^verbatim>\<open>classification\<close> or
  \<^verbatim>\<open>regression\<close>. For a task type that is neither, the configuration error is raised
  when \<open>compute_model_performance\<close> is invoked on the constructed evaluator, after the
  model has predicted and the predictions have been written: the world after the call
  holds the written predictions.
\<close>

theorem Evaluator_init_stores_any_task_type:
  assumes first: "task_types m = (k, tt) # others"
  shows "Evaluator_init m d ts vb =
           Inr \<lparr>model = m, dataset = d, transformers = ts, task_names = get_task_names d,
                task_type = tt, output_transforms = get_output_transforms d, verbose = vb\<rparr>
       \<and> (tt \<noteq> ''classification'' \<longrightarrow> tt \<noteq> ''regression'' \<longrightarrow>
          predict m d = Inr pred_y_df \<longrightarrow> csv_out \<notin> set (unwritable s) \<longrightarrow>
          compute_model_performance lib
                 \<lparr>model = m, dataset = d, transformers = ts, task_names = get_task_names d,
                  task_type = tt, output_transforms = get_output_transforms d, verbose = vb\<rparr>
                 csv_out stats_file s =
            (Inl (ValueError (''Unrecognized task type: '' @ tt)),
             (if vb then s\<lparr>logged := logged s @ [''Saving predictions to '' @ csv_out]\<rparr>
              else s)\<lparr>written := written s @ [(csv_out, PredictionCsv pred_y_df)]\<rparr>))"
  using first
  by (simp add: Evaluator_init_def compute_model_performance_def then_do_pure_Inr
      then_do_pure_Inl colnames_for_def then_do_def log_def to_csv_def pure_step_def)

theorem Evaluator_init_stores_any_task_type_witness:
  "Evaluator_init (model_t ''ranking'' (table_t [1, 3] [1, 5] [1, 1])) dataset_t [Log] True =
     Inr ((evaluator_t ''ranking'' (table_t [1, 3] [1, 5] [1, 1]))
            \<lparr>transformers := [Log], verbose := True\<rparr>)
   \<and> compute_model_performance scikit
            ((evaluator_t ''ranking'' (table_t [1, 3] [1, 5] [1, 1]))
               \<lparr>transformers := [Log], verbose := True\<rparr>)
            ''predictions.csv'' ''stats.csv'' world0 =
       (Inl (ValueError ''Unrecognized task type: ranking''),
        world0\<lparr>logged := [''Saving predictions to predictions.csv''],
               written := [(''predictions.csv'',
                            PredictionCsv (table_t [1, 3] [1, 5] [1, 1]))]\<rparr>)"
proof -
  have h: "task_types (model_t ''ranking'' (table_t [1, 3] [1, 5] [1, 1]))
      = (''t'', ''ranking'') # []"
    by (simp add: model_t_def)
  show ?thesis
    using Evaluator_init_stores_any_task_type [OF h, where d = dataset_t and ts = "[Log]"
        and vb = True and lib = scikit and csv_out = "''predictions.csv''"
        and stats_file = "''stats.csv''" and s = world0
        and pred_y_df = "table_t [1, 3] [1, 5] [1, 1]"]
    by (simp add: evaluator_t_def model_t_def dataset_t_def world0_def)
qed

text \<open>The one failure of the constructor: an empty \<^verbatim>\<open>task_types\<close> dictionary.\<close>

lemma Evaluator_init_empty_task_types:
  "task_types m = [] \<Longrightarrow> Evaluator_init m d ts vb = Inl StopIteration"
  by (simp add: Evaluator_init_def)

section \<open>Properties of \<^verbatim>\<open>compute_model_performance\<close>\<close>

text \<open>
  C10. If the evaluator's task type is neither \<^verbatim>\<open>classification\<close> nor
  \<^verbatim>\<open>regression\<close>, then \<open>compute_model_performance\<close> first obtains the Prediction Table
  from the model and writes it to the predictions sink, and only then raises the
  configuration error: the world after the call holds the written predictions (and the
  log message, when verbose), no Performance Table is returned, and none is written.
\<close>

theorem unrecognized_task_type_after_predictions:
  assumes not_c: "task_type self \<noteq> ''classification''"
    and not_r: "task_type self \<noteq> ''regression''"
    and table: "predict (model self) (dataset self) = Inr pred_y_df"
    and writable: "csv_out \<notin> set (unwritable s)"
  shows "compute_model_performance lib self csv_out stats_file s =
     (Inl (ValueError (''Unrecognized task type: '' @ task_type self)),
      (if verbose self then s\<lparr>logged := logged s @ [''Saving predictions to '' @ csv_out]\<rparr>
       else s)\<lparr>written := written s @ [(csv_out, PredictionCsv pred_y_df)]\<rparr>)"
  using assms
  by (simp add: compute_model_performance_def then_do_pure_Inr then_do_pure_Inl colnames_for_def
      then_do_def log_def to_csv_def pure_step_def)

theorem unrecognized_task_type_after_predictions_witness:
  "compute_model_performance scikit (evaluator_t ''ranking'' (table_t [1, 3] [1, 5] [1, 1]))
      ''predictions.csv'' ''stats.csv'' world0 =
     (Inl (ValueError ''Unrecognized task type: ranking''),
      world0\<lparr>written := [(''predictions.csv'', PredictionCsv (table_t [1, 3] [1, 5] [1, 1]))]\<rparr>)"
proof -
  let ?ev = "evaluator_t ''ranking'' (table_t [1, 3] [1, 5] [1, 1])"
  have h1: "task_type ?ev \<noteq> ''classification''" by (simp add: evaluator_t_def)
  have h2: "task_type ?ev \<noteq> ''regression''" by (simp add: evaluator_t_def)
  have h3: "predict (model ?ev) (dataset ?ev) = Inr (table_t [1, 3] [1, 5] [1, 1])"
    by (simp add: evaluator_t_def model_t_def)
  have h4: "''predictions.csv'' \<notin> set (unwritable world0)" by (simp add: world0_def)
  show ?thesis
    using unrecognized_task_type_after_predictions [OF h1 h2 h3 h4,
        where lib = scikit and stats_file = "''stats.csv''"]
    by (simp add: evaluator_t_def world0_def)
qed

subsection \<open>The reversal of the transforms in the loop\<close>

text \<open>An iteration of the loop never gets past line 104: it raises \<open>KeyError\<close> when a
  column of the task is missing, and \<open>TypeError\<close> otherwise.\<close>

lemma task_step_raises:
  "task_step lib self df i t perf s =
     (case column df t of Inl e \<Rightarrow> (Inl e, s) | Inr y \<Rightarrow>
       (case column df (t @ ''_pred'') of Inl e \<Rightarrow> (Inl e, s) | Inr yp \<Rightarrow>
         (case column df (t @ ''_weight'') of Inl e \<Rightarrow> (Inl e, s) | Inr w \<Rightarrow>
           (Inl (TypeError ''undo_transforms() takes exactly 2 arguments (1 given)''), s))))"
  by (simp add: task_step_def call_undo_transforms_def then_do_pure_Inl then_do_pure_Inr
      pure_step_def split: sum.splits)

text \<open>
  C1. The claim: for every task, \<open>undo_transforms\<close> with the evaluator's transform
  sequence is applied to the label vector and to the prediction vector before masking
  and the metrics. The code, on a regression evaluator with the single task \<^verbatim>\<open>t\<close>
  (labels \<open>[1, 3]\<close>, predictions \<open>[1, 5]\<close>, weights \<open>[1, 1]\<close>, no transforms), writes the
  predictions and then raises \<open>TypeError\<close>: line 104 calls \<open>undo_transforms\<close> without a
  transform sequence. No vector is reversed, nothing is masked, no metric is computed.
\<close>

theorem compute_model_performance_undo_call_raises:
  "compute_model_performance scikit (evaluator_t ''regression'' (table_t [1, 3] [1, 5] [1, 1]))
      ''predictions.csv'' ''stats.csv'' world0 =
     (Inl (TypeError ''undo_transforms() takes exactly 2 arguments (1 given)''),
      world0\<lparr>written := [(''predictions.csv'', PredictionCsv (table_t [1, 3] [1, 5] [1, 1]))]\<rparr>)"
  by (simp add: compute_model_performance_def evaluator_t_def model_t_def dataset_t_def
      then_do_pure_Inr then_do_pure_Inl log_def to_csv_def world0_def colnames_for_def
      task_step_raises column_def table_t_def then_do_def pure_step_def enumerate_eq_zip)

subsection \<open>The loop raises in its first iteration\<close>




subsection \<open>Tasks whose weights are all zero\<close>



text \<open>
  In the code of lines 107 to 125 itself, which no call reaches, the classification
  branch skips a task whose weights are all zero, and the regression branch does not
  read the weights.
\<close>

lemma nonzero_all_zero: "list_all (\<lambda>x. x = 0) w \<Longrightarrow> nonzero w = []"
  by (auto simp: nonzero_def list_all_length filter_empty_conv)

lemma classification_row_zero_weights:
  "list_all (\<lambda>x. x = 0) w \<Longrightarrow> classification_row lib i t y y_pred w df s = (Inr df, s)"
  by (simp add: classification_row_def nonzero_all_zero take_at_def then_do_pure_Inr
      pure_step_def)

lemma regression_row_ignores_weights:
  "regression_row lib i t y y_pred w df = regression_row lib i t y y_pred w' df"
  by (simp add: regression_row_def)

subsection \<open>Masking by weight\<close>

text \<open>
  C3. The claim: for every task, \<open>compute_model_performance\<close> computes the mask of the
  nonzero weights and applies it to the label and prediction vectors before any metric
  is computed. The code, on a classification evaluator with the single task \<^verbatim>\<open>t\<close>
  (labels \<open>[0, 1]\<close>, predictions \<open>[0, 0]\<close>, weights \<open>[1, 0]\<close>), writes the predictions
  and raises \<open>TypeError\<close> at line 104, before the mask of line 108: no mask is computed
  or applied and no metric is computed.
\<close>

theorem compute_model_performance_raises_before_mask:
  "compute_model_performance scikit
      (evaluator_t ''classification'' (table_t [0, 1] [0, 0] [1, 0]))
      ''predictions.csv'' ''stats.csv'' world0 =
     (Inl (TypeError ''undo_transforms() takes exactly 2 arguments (1 given)''),
      world0\<lparr>written := [(''predictions.csv'', PredictionCsv (table_t [0, 1] [0, 0] [1, 0]))]\<rparr>)"
  by (simp add: compute_model_performance_def evaluator_t_def model_t_def dataset_t_def
      then_do_pure_Inr then_do_pure_Inl log_def to_csv_def world0_def colnames_for_def
      task_step_raises column_def table_t_def then_do_def pure_step_def enumerate_eq_zip)

subsection \<open>Degenerate inputs of the metrics\<close>

text \<open>Called on its own, \<open>compute_roc_auc_scores\<close> turns a \<open>ValueError\<close> of
  scikit-learn into a warning and the score 0.5.\<close>

lemma compute_roc_auc_scores_ValueError:
  "roc_auc_score lib yi ypi = Inl (ValueError msg) \<Longrightarrow>
   compute_roc_auc_scores lib yi ypi s =
     (Inr (Num (1 / 2)), s\<lparr>warnings := warnings s @ [''ROC AUC score calculation failed.'']\<rparr>)"
  by (simp add: compute_roc_auc_scores_def then_do_def warn_def pure_step_def)

text \<open>
  C8. The claim: for a classification task whose masked label vector is degenerate for
  ROC-AUC, a warning is emitted, the score 0.5 is recorded, and the other metrics and
  the run proceed normally. The code, on a classification evaluator with the single
  task \<^verbatim>\<open>t\<close> (labels \<open>[0, 5, 0]\<close>, predictions \<open>[0, 5, 1]\<close>, weights \<open>[1, 0, 2]\<close>: the
  masked labels are \<open>[0, 0]\<close>, a single class, on which scikit-learn refuses to compute
  ROC-AUC), writes the predictions and raises \<open>TypeError\<close> at line 104: no warning is
  emitted, no score is recorded, and the run aborts.
\<close>

theorem degenerate_roc_auc_task_run_raises:
  "take_at [0, 5, 0] (nonzero [1, 0, 2]) = Inr [0, 0 :: real]
   \<and> roc_auc_score scikit (map astype_int [0, 0]) (map astype_int [0, 1]) = Inl one_class
   \<and> compute_model_performance scikit
      (evaluator_t ''classification'' (table_t [0, 5, 0] [0, 5, 1] [1, 0, 2]))
      ''predictions.csv'' ''stats.csv'' world0 =
     (Inl (TypeError ''undo_transforms() takes exactly 2 arguments (1 given)''),
      world0\<lparr>written :=
        [(''predictions.csv'', PredictionCsv (table_t [0, 5, 0] [0, 5, 1] [1, 0, 2]))]\<rparr>)"
proof -
  have nz: "nonzero [1, 0, 2] = [0, 2]"
    by (simp add: nonzero_def upt_rec)
  have "take_at [0, 5, 0] (nonzero [1, 0, 2]) = Inr [0, 0 :: real]"
    by (simp add: nz take_at_def)
  moreover have "roc_auc_score scikit (map astype_int [0, 0]) (map astype_int [0, 1])
      = Inl one_class"
    by (simp add: astype_int_def scikit_def sk_roc_auc_score_def)
  moreover have "compute_model_performance scikit
      (evaluator_t ''classification'' (table_t [0, 5, 0] [0, 5, 1] [1, 0, 2]))
      ''predictions.csv'' ''stats.csv'' world0 =
     (Inl (TypeError ''undo_transforms() takes exactly 2 arguments (1 given)''),
      world0\<lparr>written :=
        [(''predictions.csv'', PredictionCsv (table_t [0, 5, 0] [0, 5, 1] [1, 0, 2]))]\<rparr>)"
    by (simp add: compute_model_performance_def evaluator_t_def model_t_def dataset_t_def
      then_do_pure_Inr then_do_pure_Inl log_def to_csv_def world0_def colnames_for_def
      task_step_raises column_def table_t_def then_do_def pure_step_def enumerate_eq_zip)
  ultimately show ?thesis by simp
qed

text \<open>The handler of the regression branch turns a \<open>ValueError\<close> of the \<^verbatim>\<open>try\<close>
  block into two not-a-numbers.\<close>

lemma regression_scores_ValueError:
  "regression_try lib y y_pred = Inl (ValueError msg) \<Longrightarrow>
   regression_scores lib y y_pred = Inr (NaN, NaN)"
  by (simp add: regression_scores_def)

text \<open>
  C9. The claim: for a regression task on which R2 or the root mean squared error fails
  on a degenerate input, both metrics of the task's row are recorded as not-a-number
  and the run continues with the next task. The code, on a regression evaluator with
  the single task \<^verbatim>\<open>t\<close> and a table without examples (on empty vectors scikit-learn
  refuses to compute R2), writes the predictions and raises \<open>TypeError\<close> at line 104:
  no row is recorded and the run aborts.
\<close>

theorem degenerate_regression_task_run_raises:
  "r2_score scikit [] [] = Inl no_samples
   \<and> compute_model_performance scikit (evaluator_t ''regression'' (table_t [] [] []))
      ''predictions.csv'' ''stats.csv'' world0 =
     (Inl (TypeError ''undo_transforms() takes exactly 2 arguments (1 given)''),
      world0\<lparr>written := [(''predictions.csv'', PredictionCsv (table_t [] [] []))]\<rparr>)"
  by (simp add: compute_model_performance_def evaluator_t_def model_t_def dataset_t_def
      then_do_pure_Inr then_do_pure_Inl log_def to_csv_def world0_def colnames_for_def
      task_step_raises column_def table_t_def then_do_def pure_step_def enumerate_eq_zip
      scikit_def sk_r2_score_def)

end
